theory Spec2Isabelle
  imports Complex_Main
begin

section \<open>Constants of \<^verbatim>\<open>sap.py\<close>\<close>

definition audit_filename :: string where
  "audit_filename = ''/opt/sap/logs/audit.txt''"

definition backup_filename :: string where
  "backup_filename = ''/opt/sap/logs/audit.txt.1''"

definition MAX_AUDIT_FILESIZE :: nat where
  "MAX_AUDIT_FILESIZE = 10 * 1024 * 1024"

definition BACKUP_MAX_AGE_SECS :: real where
  "BACKUP_MAX_AGE_SECS = 3600"

definition MAX_RETRIES :: nat where
  "MAX_RETRIES = 5"

section \<open>Exceptions\<close>

text \<open>
  The exceptions that the calls of \<^verbatim>\<open>fetch_logs\<close> can raise, by the library class of the
  raised object. The three \<^verbatim>\<open>except\<close> clauses of \<^verbatim>\<open>fetch_logs\<close> test, in this order,
  \<^verbatim>\<open>requests.exceptions.Timeout\<close>, \<^verbatim>\<open>requests.RequestException\<close> and
  \<^verbatim>\<open>json.JSONDecodeError\<close>; the three predicates below are Python's \<^verbatim>\<open>isinstance\<close> for
  these classes.

  \<^item> \<open>ReadTimeout\<close>, \<open>ConnectTimeout\<close>: subclasses of \<^verbatim>\<open>Timeout\<close>, itself a
    \<^verbatim>\<open>RequestException\<close>.
  \<^item> \<open>ConnectionError\<close>, \<open>HTTPError\<close> (what \<^verbatim>\<open>raise_for_status\<close> raises): subclasses of
    \<^verbatim>\<open>RequestException\<close>.
  \<^item> \<open>RequestsJSONDecodeError\<close>: \<^verbatim>\<open>requests.exceptions.JSONDecodeError\<close>, which
    \<^verbatim>\<open>Response.json()\<close> raises on an unparsable body since requests 2.27. It is declared
    \<^verbatim>\<open>class JSONDecodeError(InvalidJSONError, CompatJSONDecodeError)\<close>, with
    \<^verbatim>\<open>InvalidJSONError(RequestException)\<close>: an instance of both \<^verbatim>\<open>RequestException\<close> and
    \<^verbatim>\<open>json.JSONDecodeError\<close>.
  \<^item> \<open>StdlibJSONDecodeError\<close>: \<^verbatim>\<open>json.JSONDecodeError\<close> itself (a \<^verbatim>\<open>ValueError\<close>), which
    \<^verbatim>\<open>Response.json()\<close> of requests before 2.27 lets through.
  \<^item> \<open>OSError\<close>: a file operation that fails; \<open>OtherError\<close>: any other exception.
    Neither is an instance of one of the three classes.
\<close>

datatype exn =
    ReadTimeout
  | ConnectTimeout
  | ConnectionError
  | HTTPError
  | RequestsJSONDecodeError
  | StdlibJSONDecodeError
  | OSError
  | OtherError string

fun is_Timeout :: "exn \<Rightarrow> bool" where
  "is_Timeout ReadTimeout = True"
| "is_Timeout ConnectTimeout = True"
| "is_Timeout _ = False"

fun is_RequestException :: "exn \<Rightarrow> bool" where
  "is_RequestException ReadTimeout = True"
| "is_RequestException ConnectTimeout = True"
| "is_RequestException ConnectionError = True"
| "is_RequestException HTTPError = True"
| "is_RequestException RequestsJSONDecodeError = True"
| "is_RequestException _ = False"

fun is_JSONDecodeError :: "exn \<Rightarrow> bool" where
  "is_JSONDecodeError RequestsJSONDecodeError = True"
| "is_JSONDecodeError StdlibJSONDecodeError = True"
| "is_JSONDecodeError _ = False"

section \<open>JSON values\<close>

text \<open>
  What \<^verbatim>\<open>response.json()\<close> returns: Python's \<^verbatim>\<open>None\<close>, \<^verbatim>\<open>bool\<close>, \<^verbatim>\<open>int\<close>, \<^verbatim>\<open>str\<close>,
  \<^verbatim>\<open>list\<close> and \<^verbatim>\<open>dict\<close> (keys in insertion order). A \<^verbatim>\<open>str\<close> is modelled by its UTF-8
  bytes, so \<^verbatim>\<open>.encode('utf-8')\<close> is the identity. Numbers with a fraction or an exponent
  (Python floats) are outside the model.
\<close>

datatype json =
    JNull
  | JBool bool
  | JInt int
  | JStr string
  | JList "json list"
  | JDict "(string \<times> json) list"

section \<open>The fetcher\<close>

text \<open>
  One pass through the \<^verbatim>\<open>try\<close> body of \<^verbatim>\<open>fetch_logs\<close> starts with
  \<^verbatim>\<open>requests.get(...)\<close> and \<^verbatim>\<open>response.raise_for_status()\<close>: either one of them raises, or
  a response with a body (\<^verbatim>\<open>response.content\<close>) is there.
\<close>

datatype attempt_outcome = Raises exn | Response string

text \<open>The observable effects of a fetch: the requests sent and the backoff sleeps.\<close>

datatype fetch_event = HttpGet nat | Sleep nat

text \<open>\<^verbatim>\<open>bytes.strip()\<close> removes ASCII whitespace; \<^verbatim>\<open>not response.content.strip()\<close> holds
  when nothing else is in the body.\<close>

definition is_ascii_space :: "char \<Rightarrow> bool" where
  "is_ascii_space c = (c \<in> set [CHR 0x20, CHR 0x09, CHR 0x0A, CHR 0x0D, CHR 0x0B, CHR 0x0C])"

definition blank :: "string \<Rightarrow> bool" where
  "blank content = list_all is_ascii_space content"

text \<open>
  The \<^verbatim>\<open>try\<close> body (lines 140-157). \<open>response_json\<close> is \<^verbatim>\<open>response.json()\<close> on the body:
  the parsed value, or the exception the parser raises. \<open>Inr logs\<close> is a \<^verbatim>\<open>return logs\<close>,
  \<open>Inl e\<close> an exception on its way to the \<^verbatim>\<open>except\<close> clauses.
\<close>

definition try_body :: "(string \<Rightarrow> exn + json) \<Rightarrow> attempt_outcome \<Rightarrow> exn + json list" where
  "try_body response_json outcome =
     (case outcome of
        Raises e \<Rightarrow> Inl e
      | Response content \<Rightarrow>
          if blank content then Inr []
          else (case response_json content of
                  Inl e \<Rightarrow> Inl e
                | Inr logs \<Rightarrow> (case logs of JList xs \<Rightarrow> Inr xs | _ \<Rightarrow> Inr [])))"

text \<open>
  The \<^verbatim>\<open>except\<close> clauses (lines 158-166), tried in the order of the source; the first
  class the exception is an instance of handles it. \<open>Continue\<close> falls through to the
  backoff sleep at the end of the loop body, \<open>Return r\<close> is \<^verbatim>\<open>return r\<close>, and
  \<open>Propagate e\<close> is an exception no clause catches.
\<close>

datatype handled = Continue | Return "json list option" | Propagate exn

definition except_clauses :: "exn \<Rightarrow> nat \<Rightarrow> handled" where
  "except_clauses e attempt =
     (if is_Timeout e then Continue
      else if is_RequestException e then
        (if attempt = MAX_RETRIES then Return None else Continue)
      else if is_JSONDecodeError e then Return None
      else Propagate e)"

text \<open>
  The loop \<^verbatim>\<open>for attempt in range(1, MAX_RETRIES + 1)\<close> over the remaining attempt
  numbers. The result is \<open>Inr (Some logs)\<close> for a returned list, \<open>Inr None\<close> for the
  definitive failure \<^verbatim>\<open>None\<close>, and \<open>Inl e\<close> for an exception that leaves \<^verbatim>\<open>fetch_logs\<close>.
  \<open>http attempt\<close> is what the server and the network do at that attempt.
\<close>

fun fetch_attempts ::
  "(string \<Rightarrow> exn + json) \<Rightarrow> (nat \<Rightarrow> attempt_outcome) \<Rightarrow> nat list
     \<Rightarrow> (exn + json list option) \<times> fetch_event list" where
  "fetch_attempts response_json http [] = (Inr None, [])"
| "fetch_attempts response_json http (attempt # rest) =
     (case try_body response_json (http attempt) of
        Inr logs \<Rightarrow> (Inr (Some logs), [HttpGet attempt])
      | Inl e \<Rightarrow>
          (case except_clauses e attempt of
             Return r \<Rightarrow> (Inr r, [HttpGet attempt])
           | Propagate e' \<Rightarrow> (Inl e', [HttpGet attempt])
           | Continue \<Rightarrow>
               (let (r, evs) = fetch_attempts response_json http rest
                in (r, HttpGet attempt # Sleep (2 ^ attempt) # evs))))"

definition fetch_logs ::
  "(string \<Rightarrow> exn + json) \<Rightarrow> (nat \<Rightarrow> attempt_outcome)
     \<Rightarrow> (exn + json list option) \<times> fetch_event list" where
  "fetch_logs response_json http = fetch_attempts response_json http [1..<MAX_RETRIES + 1]"

section \<open>Serialisation and fingerprints\<close>

text \<open>
  \<^verbatim>\<open>json.dumps(log, ensure_ascii=False)\<close> of the standard library, with its default
  separators \<^verbatim>\<open>', '\<close> and \<^verbatim>\<open>': '\<close>. A string is quoted; the backslash, the double quote
  and the control characters below \<^verbatim>\<open>0x20\<close> are escaped (\<^verbatim>\<open>ESCAPE_DCT\<close> of
  \<^verbatim>\<open>json.encoder\<close>), every other byte is written as it is.
\<close>

definition hex_digit :: "nat \<Rightarrow> char" where
  "hex_digit n = ''0123456789abcdef'' ! (n mod 16)"

definition escape_char :: "char \<Rightarrow> string" where
  "escape_char c =
     (if c = CHR 0x5C then [CHR 0x5C, CHR 0x5C]
      else if c = CHR 0x22 then [CHR 0x5C, CHR 0x22]
      else if c = CHR 0x08 then [CHR 0x5C, CHR ''b'']
      else if c = CHR 0x0C then [CHR 0x5C, CHR ''f'']
      else if c = CHR 0x0A then [CHR 0x5C, CHR ''n'']
      else if c = CHR 0x0D then [CHR 0x5C, CHR ''r'']
      else if c = CHR 0x09 then [CHR 0x5C, CHR ''t'']
      else if (of_char c :: nat) < 0x20 then
        [CHR 0x5C, CHR ''u'', CHR ''0'', CHR ''0'',
         hex_digit (of_char c div 16), hex_digit (of_char c)]
      else [c])"

definition encode_basestring :: "string \<Rightarrow> string" where
  "encode_basestring s = [CHR 0x22] @ concat (map escape_char s) @ [CHR 0x22]"

definition digit_char :: "nat \<Rightarrow> char" where
  "digit_char n = ''0123456789'' ! (n mod 10)"

fun str_nat :: "nat \<Rightarrow> string" where
  "str_nat n =
     (if n < 10 then [digit_char n]
      else str_nat (n div 10) @ [digit_char n])"

definition str_int :: "int \<Rightarrow> string" where
  "str_int i = (if i < 0 then CHR ''-'' # str_nat (nat (- i)) else str_nat (nat i))"

fun join :: "string \<Rightarrow> string list \<Rightarrow> string" where
  "join sep [] = []"
| "join sep [x] = x"
| "join sep (x # y # ys) = x @ sep @ join sep (y # ys)"

fun json_dumps :: "json \<Rightarrow> string"
  and dumps_items :: "json list \<Rightarrow> string list"
  and dumps_members :: "(string \<times> json) list \<Rightarrow> string list" where
  "json_dumps JNull = ''null''"
| "json_dumps (JBool b) = (if b then ''true'' else ''false'')"
| "json_dumps (JInt i) = str_int i"
| "json_dumps (JStr s) = encode_basestring s"
| "json_dumps (JList xs) = ''['' @ join '', '' (dumps_items xs) @ '']''"
| "json_dumps (JDict kvs) = ''{'' @ join '', '' (dumps_members kvs) @ ''}''"
| "dumps_items [] = []"
| "dumps_items (x # xs) = json_dumps x # dumps_items xs"
| "dumps_members [] = []"
| "dumps_members ((k, v) # kvs) =
     (encode_basestring k @ '': '' @ json_dumps v) # dumps_members kvs"

text \<open>
  The fingerprint is \<^verbatim>\<open>hashlib.sha256(s.encode('utf-8')).hexdigest()\<close>. SHA-256 is a
  library function; the operations below take it as the parameter \<open>sha256\<close>.
\<close>

section \<open>The file system\<close>

text \<open>
  A file has its bytes and its modification time (seconds, as \<^verbatim>\<open>os.path.getmtime\<close>
  reports it). The file system maps a path to the file there, \<open>None\<close> when the path
  does not exist.
\<close>

record stored_file =
  data :: string
  mtime :: real

type_synonym filesystem = "string \<Rightarrow> stored_file option"

text \<open>
  The file operations of the program. \<open>fails c\<close> says that the operating system
  refuses the call \<open>c\<close>, which then raises \<^verbatim>\<open>OSError\<close>.
\<close>

datatype fs_call =
    Getmtime_backup
  | Remove_expired_backup
  | Getsize_audit
  | Remove_superseded_backup
  | Rename_audit
  | Open_read
  | Open_append

section \<open>The archive rotator\<close>

text \<open>
  Lines 178-182: the age check of the backup. \<open>time_time\<close> is the reading of
  \<^verbatim>\<open>time.time()\<close>. \<open>Inr\<close> carries the file system on to the next statement;
  \<open>Inl\<close> is a raised exception, with the file system as it is at that moment.
\<close>

definition expire_backup ::
  "(fs_call \<Rightarrow> bool) \<Rightarrow> real \<Rightarrow> filesystem \<Rightarrow> filesystem + filesystem" where
  "expire_backup fails time_time fs =
     (case fs backup_filename of
        None \<Rightarrow> Inr fs
      | Some b \<Rightarrow>
          if fails Getmtime_backup then Inl fs
          else if time_time - mtime b > BACKUP_MAX_AGE_SECS then
            (if fails Remove_expired_backup then Inl fs
             else Inr (fs(backup_filename := None)))
          else Inr fs)"

text \<open>Line 187: \<^verbatim>\<open>os.rename(audit_filename, backup_filename)\<close>.\<close>

definition rename_audit :: "(fs_call \<Rightarrow> bool) \<Rightarrow> filesystem \<Rightarrow> filesystem + filesystem" where
  "rename_audit fails fs =
     (if fails Rename_audit then Inl fs
      else Inr (fs(backup_filename := fs audit_filename, audit_filename := None)))"

text \<open>Lines 184-188: the size check and the rotation.\<close>

definition rotate_if_full ::
  "(fs_call \<Rightarrow> bool) \<Rightarrow> filesystem \<Rightarrow> filesystem + filesystem" where
  "rotate_if_full fails fs =
     (case fs audit_filename of
        None \<Rightarrow> Inr fs
      | Some a \<Rightarrow>
          if fails Getsize_audit then Inl fs
          else if length (data a) \<ge> MAX_AUDIT_FILESIZE then
            (case fs backup_filename of
               None \<Rightarrow> rename_audit fails fs
             | Some b \<Rightarrow>
                 if fails Remove_superseded_backup then Inl fs
                 else rename_audit fails (fs(backup_filename := None)))
          else Inr fs)"

text \<open>
  \<^verbatim>\<open>rotate_audit_file\<close>: the two checks inside one \<^verbatim>\<open>try\<close>; the handler
  \<^verbatim>\<open>except Exception\<close> logs and returns, leaving the file system as the failed call
  found it.
\<close>

definition rotate_audit_file :: "(fs_call \<Rightarrow> bool) \<Rightarrow> real \<Rightarrow> filesystem \<Rightarrow> filesystem" where
  "rotate_audit_file fails time_time fs =
     (case expire_backup fails time_time fs of
        Inl fs' \<Rightarrow> fs'
      | Inr fs1 \<Rightarrow>
          (case rotate_if_full fails fs1 of
             Inl fs' \<Rightarrow> fs'
           | Inr fs2 \<Rightarrow> fs2))"

section \<open>Replaying the audit file\<close>

text \<open>
  \<^verbatim>\<open>for line in f\<close> on a file opened in text mode: each line ends after its line
  break and keeps it; universal newlines turn \<^verbatim>\<open>\r\n\<close> and \<^verbatim>\<open>\r\<close> into \<^verbatim>\<open>\n\<close>. A last
  line with no line break is a line too. \<open>cur\<close> is the line read so far.
\<close>

fun text_lines :: "string \<Rightarrow> string \<Rightarrow> string list" where
  "text_lines cur [] = (if cur = [] then [] else [cur])"
| "text_lines cur (c # cs) =
     (if c = CHR 0x0A then (cur @ [CHR 0x0A]) # text_lines [] cs
      else if c = CHR 0x0D then
        (case cs of
           [] \<Rightarrow> [cur @ [CHR 0x0A]]
         | d # ds \<Rightarrow>
             if d = CHR 0x0A then (cur @ [CHR 0x0A]) # text_lines [] ds
             else (cur @ [CHR 0x0A]) # text_lines [] cs)
      else text_lines (cur @ [c]) cs)"

text \<open>
  \<^verbatim>\<open>load_existing_event_hashes\<close>: \<open>Inr\<close> the set it returns, \<open>Inl\<close> an exception
  other than \<^verbatim>\<open>FileNotFoundError\<close>, which the function does not catch.
\<close>

definition load_existing_event_hashes ::
  "(string \<Rightarrow> 'h) \<Rightarrow> (fs_call \<Rightarrow> bool) \<Rightarrow> string \<Rightarrow> filesystem \<Rightarrow> exn + 'h set" where
  "load_existing_event_hashes sha256 fails filename fs =
     (case fs filename of
        None \<Rightarrow> Inr {}
      | Some f \<Rightarrow>
          if fails Open_read then Inl OSError
          else Inr (set (map sha256 (text_lines [] (data f)))))"

section \<open>The forwarder\<close>

text \<open>
  The network as \<^verbatim>\<open>TcpLogSender\<close> meets it: \<open>connect_ok n\<close> says whether the \<open>n\<close>-th
  call of \<^verbatim>\<open>socket.create_connection\<close> (counted from 0) succeeds, \<open>sendall_ok n\<close>
  whether the \<open>n\<close>-th call of \<^verbatim>\<open>sendall\<close> does.
\<close>

record network =
  connect_ok :: "nat \<Rightarrow> bool"
  sendall_ok :: "nat \<Rightarrow> bool"

text \<open>
  The sender object: \<open>sock\<close> is \<^verbatim>\<open>self.sock\<close> (the socket, named by the number of the
  connect call that opened it, or \<^verbatim>\<open>None\<close>). The counters of the calls made so far and
  the byte strings handed to the peer are kept with it.
\<close>

record tcp_log_sender =
  sock :: "nat option"
  connects :: nat
  sendalls :: nat
  delivered :: "string list"

definition connect :: "network \<Rightarrow> tcp_log_sender \<Rightarrow> tcp_log_sender" where
  "connect net s =
     s\<lparr>sock := (if connect_ok net (connects s) then Some (connects s) else None),
       connects := Suc (connects s)\<rparr>"

definition send :: "network \<Rightarrow> string \<Rightarrow> tcp_log_sender \<Rightarrow> tcp_log_sender" where
  "send net line s =
     (let s1 = (if sock s = None then connect net s else s)
      in if sock s1 \<noteq> None then
           (if sendall_ok net (sendalls s1) then
              s1\<lparr>sendalls := Suc (sendalls s1),
                 delivered := delivered s1 @ [line @ [CHR 0x0A]]\<rparr>
            else s1\<lparr>sendalls := Suc (sendalls s1), sock := None\<rparr>)
         else s1)"

definition close :: "tcp_log_sender \<Rightarrow> tcp_log_sender" where
  "close s = s\<lparr>sock := None\<rparr>"

text \<open>Line 114: the global sender, whose constructor calls \<^verbatim>\<open>connect\<close> once.\<close>

definition new_tcp_sender :: "network \<Rightarrow> tcp_log_sender" where
  "new_tcp_sender net = connect net \<lparr>sock = None, connects = 0, sendalls = 0, delivered = []\<rparr>"

section \<open>The state of the program\<close>

text \<open>
  The effects in the order they happen: the window handed to \<^verbatim>\<open>fetch_logs\<close> and what
  the fetch does, a call of \<^verbatim>\<open>rotate_audit_file\<close>, a call of \<^verbatim>\<open>tcp_sender.send\<close> with its
  argument, and \<^verbatim>\<open>f.writelines\<close> on a file opened for appending, with the path and the
  lines.
\<close>

datatype event =
    FetchWindow real real
  | Http fetch_event
  | Rotation
  | TcpSend string
  | FileAppend string "string list"

record 'h state =
  files :: filesystem
  tcp_sender :: tcp_log_sender
  seen_hashes :: "'h set"
  last_end_dt :: real
  trace :: "event list"

section \<open>Deduplication, forwarding and persistence\<close>

text \<open>
  The loop of \<^verbatim>\<open>write_unique_logs\<close> (lines 208-214) over the remaining records;
  \<open>new_events\<close> is the list of the same name.
\<close>

fun unique_loop ::
  "(string \<Rightarrow> 'h) \<Rightarrow> network \<Rightarrow> json list \<Rightarrow> 'h state \<times> string list
     \<Rightarrow> 'h state \<times> string list" where
  "unique_loop sha256 net [] (st, new_events) = (st, new_events)"
| "unique_loop sha256 net (log_entry # logs) (st, new_events) =
     (let json_line = json_dumps log_entry;
          event_hash = sha256 json_line
      in if event_hash \<notin> seen_hashes st then
           unique_loop sha256 net logs
             (st\<lparr>seen_hashes := insert event_hash (seen_hashes st),
                 tcp_sender := send net json_line (tcp_sender st),
                 trace := trace st @ [TcpSend json_line]\<rparr>,
              new_events @ [json_line @ [CHR 0x0A]])
         else unique_loop sha256 net logs (st, new_events))"

text \<open>
  Lines 217-218: the file is opened for appending (created when absent) and the
  lines are written; \<open>time_time\<close> becomes its modification time.
\<close>

definition append_lines :: "string \<Rightarrow> string list \<Rightarrow> real \<Rightarrow> filesystem \<Rightarrow> filesystem" where
  "append_lines filename new_lines time_time fs =
     fs(filename :=
          Some \<lparr>data = (case fs filename of None \<Rightarrow> [] | Some f \<Rightarrow> data f) @ concat new_lines,
                mtime = time_time\<rparr>)"

text \<open>
  \<^verbatim>\<open>write_unique_logs\<close>. The first component of the result is the exception that
  leaves the function, if any; the state is returned in both cases, since the
  Seen-Set and the sender are changed in place.
\<close>

definition write_unique_logs ::
  "(string \<Rightarrow> 'h) \<Rightarrow> network \<Rightarrow> (fs_call \<Rightarrow> bool) \<Rightarrow> real \<Rightarrow> json list \<Rightarrow> string
     \<Rightarrow> 'h state \<Rightarrow> exn option \<times> 'h state" where
  "write_unique_logs sha256 net fails time_time logs filename st =
     (let st1 = st\<lparr>files := rotate_audit_file fails time_time (files st),
                     trace := trace st @ [Rotation]\<rparr>;
          (st2, new_events) = unique_loop sha256 net logs (st1, [])
      in if new_events \<noteq> [] then
           (if fails Open_append then (Some OSError, st2)
            else (None, st2\<lparr>files := append_lines filename new_events time_time (files st2),
                             trace := trace st2 @ [FileAppend filename new_events]\<rparr>))
         else (None, st2))"

section \<open>The poll loop\<close>

text \<open>
  What the outside world supplies to one fetch-and-process step: the reading of
  \<^verbatim>\<open>datetime.now(tz)\<close> (an instant, in seconds), the behaviour of the server at each
  attempt, the refused file operations, and the reading of \<^verbatim>\<open>time.time()\<close>.
\<close>

record cycle =
  now_dt :: real
  server :: "nat \<Rightarrow> attempt_outcome"
  fs_fails :: "fs_call \<Rightarrow> bool"
  clock :: real

definition time_window :: "real \<Rightarrow> real \<Rightarrow> real \<times> real" where
  "time_window hours t = (t - hours * 3600, t)"

text \<open>The call \<^verbatim>\<open>fetch_logs(start_dt, end_dt)\<close> with its effects recorded.\<close>

definition fetch_window ::
  "(string \<Rightarrow> exn + json) \<Rightarrow> cycle \<Rightarrow> real \<Rightarrow> real \<Rightarrow> 'h state
     \<Rightarrow> (exn + json list option) \<times> 'h state" where
  "fetch_window response_json c start_dt end_dt st =
     (let (r, evs) = fetch_logs response_json (server c)
      in (r, st\<lparr>trace := trace st @ FetchWindow start_dt end_dt # map Http evs\<rparr>))"



text \<open>
  The state of a process that has just been started on the file system \<open>fs0\<close>:
  the global sender exists, nothing has been seen or done. (\<^verbatim>\<open>last_end_dt\<close> is
  assigned before it is read; 0 stands for the unassigned variable.)
\<close>

definition start_state :: "network \<Rightarrow> filesystem \<Rightarrow> 'h state" where
  "start_state net fs0 =
     \<lparr>files = fs0, tcp_sender = new_tcp_sender net, seen_hashes = {},
      last_end_dt = 0, trace = []\<rparr>"

text \<open>
  Lines 225-235: the start of \<^verbatim>\<open>main\<close>. \<open>c0\<close> is the world at the initial fetch,
  \<open>fs0\<close> the file system the process finds.
\<close>

definition main_init ::
  "(string \<Rightarrow> 'h) \<Rightarrow> (string \<Rightarrow> exn + json) \<Rightarrow> network \<Rightarrow> cycle \<Rightarrow> filesystem
     \<Rightarrow> exn option \<times> 'h state" where
  "main_init sha256 response_json net c0 fs0 =
     (let st0 = start_state net fs0
      in case load_existing_event_hashes sha256 (fs_fails c0) audit_filename fs0 of
           Inl e \<Rightarrow> (Some e, st0)
         | Inr seen \<Rightarrow>
             (let (start_dt, end_dt) = time_window 24 (now_dt c0)
              in case fetch_window response_json c0 start_dt end_dt
                        (st0\<lparr>seen_hashes := seen\<rparr>) of
                   (Inl e, st1) \<Rightarrow> (Some e, st1)
                 | (Inr None, st1) \<Rightarrow> (None, st1\<lparr>last_end_dt := end_dt\<rparr>)
                 | (Inr (Some logs), st1) \<Rightarrow>
                     (case write_unique_logs sha256 net (fs_fails c0) (clock c0) logs
                             audit_filename st1 of
                        (Some e, st2) \<Rightarrow> (Some e, st2)
                      | (None, st2) \<Rightarrow> (None, st2\<lparr>last_end_dt := end_dt\<rparr>))))"


section \<open>Notions used in the statements\<close>

text \<open>
  The canonical lines that the loop of \<^verbatim>\<open>write_unique_logs\<close> admits from a batch, given
  the Seen-Set at its start: a record is admitted when its fingerprint is neither in
  the Seen-Set nor that of an earlier record of the batch.
\<close>

fun admitted :: "(string \<Rightarrow> 'h) \<Rightarrow> 'h set \<Rightarrow> json list \<Rightarrow> string list" where
  "admitted sha256 seen [] = []"
| "admitted sha256 seen (r # rs) =
     (if sha256 (json_dumps r) \<notin> seen
      then json_dumps r # admitted sha256 (insert (sha256 (json_dumps r)) seen) rs
      else admitted sha256 seen rs)"

definition terminated :: "string \<Rightarrow> string" where
  "terminated line = line @ [CHR 0x0A]"

text \<open>The sender after \<^verbatim>\<open>send\<close> has been called with each line in turn.\<close>

definition send_each :: "network \<Rightarrow> string list \<Rightarrow> tcp_log_sender \<Rightarrow> tcp_log_sender" where
  "send_each net ls s = foldl (\<lambda>s' l. send net l s') s ls"

text \<open>The arguments of the calls of \<^verbatim>\<open>tcp_sender.send\<close> in a trace, in order.\<close>

fun sends :: "event list \<Rightarrow> string list" where
  "sends [] = []"
| "sends (TcpSend l # evs) = l # sends evs"
| "sends (ev # evs) = sends evs"

text \<open>
  The order that the specification gives: whenever the forwarder is asked to send a
  line, that line, with its line break, has been appended to the audit file by an
  earlier write. \<open>written\<close> holds the lines appended so far.
\<close>

fun persisted_before_sent :: "string list \<Rightarrow> event list \<Rightarrow> bool" where
  "persisted_before_sent written [] = True"
| "persisted_before_sent written (FileAppend f ls # evs) =
     persisted_before_sent (written @ ls) evs"
| "persisted_before_sent written (TcpSend l # evs) =
     (terminated l \<in> set written \<and> persisted_before_sent written evs)"
| "persisted_before_sent written (ev # evs) = persisted_before_sent written evs"

text \<open>The windows handed to \<^verbatim>\<open>fetch_logs\<close> in a trace, in order.\<close>

fun windows :: "event list \<Rightarrow> (real \<times> real) list" where
  "windows [] = []"
| "windows (FetchWindow start_dt end_dt # evs) = (start_dt, end_dt) # windows evs"
| "windows (ev # evs) = windows evs"



text \<open>Worlds for the concrete runs: no file operation fails; a peer that accepts
  every connection and every send; a peer that cannot be reached.\<close>

definition no_faults :: "fs_call \<Rightarrow> bool" where
  "no_faults c = False"

definition peer_up :: network where
  "peer_up = \<lparr>connect_ok = (\<lambda>n. True), sendall_ok = (\<lambda>n. True)\<rparr>"

definition peer_down :: network where
  "peer_down = \<lparr>connect_ok = (\<lambda>n. False), sendall_ok = (\<lambda>n. False)\<rparr>"









section \<open>Properties of the fetcher\<close>

lemma attempts_upto: "[1..<MAX_RETRIES + 1] = [1, 2, 3, 4, 5]"
  by (simp add: MAX_RETRIES_def upt_rec)

text \<open>
  As long as every attempt ends in a timeout, the loop goes on: each attempt sends
  its request and sleeps \<open>2 ^ attempt\<close> seconds, and the attempts run out.
\<close>

lemma fetch_attempts_all_timeout:
  assumes "\<forall>a\<in>set as. \<exists>e. http a = Raises e \<and> is_Timeout e"
  shows "fetch_attempts response_json http as =
           (Inr None, concat (map (\<lambda>a. [HttpGet a, Sleep (2 ^ a)]) as))"
  using assms
proof (induction as)
  case Nil
  then show ?case by simp
next
  case (Cons a as)
  then obtain e where "http a = Raises e" "is_Timeout e" by auto
  with Cons show ?case by (simp add: try_body_def except_clauses_def)
qed

text \<open>
  Claim C2, on the code as it runs with requests 2.27 or later. The request of every
  attempt succeeds with the body \<^verbatim>\<open>{\<close>, and \<^verbatim>\<open>response.json()\<close> raises
  \<^verbatim>\<open>requests.exceptions.JSONDecodeError\<close>. That exception is a \<^verbatim>\<open>RequestException\<close>, so
  the clause \<^verbatim>\<open>except requests.RequestException\<close> takes it before the clause
  \<^verbatim>\<open>except json.JSONDecodeError\<close> is looked at: the fetch does not fail at the first
  attempt. It sleeps 2, 4, 8 and 16 seconds and sends five requests before it returns
  \<^verbatim>\<open>None\<close>.
\<close>

theorem fetch_logs_malformed_json_is_retried:
  "fetch_logs (\<lambda>body. Inl RequestsJSONDecodeError) (\<lambda>attempt. Response ''{'') =
     (Inr None, [HttpGet 1, Sleep 2, HttpGet 2, Sleep 4, HttpGet 3, Sleep 8,
                 HttpGet 4, Sleep 16, HttpGet 5])"
  unfolding fetch_logs_def attempts_upto
  by (simp add: try_body_def except_clauses_def blank_def is_ascii_space_def MAX_RETRIES_def)

text \<open>
  With a decode error that is not a \<^verbatim>\<open>RequestException\<close> (the plain
  \<^verbatim>\<open>json.JSONDecodeError\<close> of requests before 2.27) the third clause is reached: the
  first attempt returns \<^verbatim>\<open>None\<close>, with one request and no sleep.
\<close>

lemma fetch_logs_stdlib_decode_error:
  assumes "http 1 = Response body" and "\<not> blank body"
    and "response_json body = Inl StdlibJSONDecodeError"
  shows "fetch_logs response_json http = (Inr None, [HttpGet 1])"
  using assms unfolding fetch_logs_def attempts_upto
  by (simp add: try_body_def except_clauses_def)

text \<open>
  Claim C3: a fetch whose five attempts all time out returns the definitive failure
  \<^verbatim>\<open>None\<close> (\<open>Inr None\<close>), not the empty list \<open>Inr (Some [])\<close>, and only after all
  five requests have been sent. (Each timeout is followed by its backoff sleep, the
  fifth one too.)
\<close>

theorem fetch_logs_all_timeouts:
  assumes "\<forall>a\<in>{1..MAX_RETRIES}. \<exists>e. http a = Raises e \<and> is_Timeout e"
  shows "fetch_logs response_json http =
           (Inr None, [HttpGet 1, Sleep 2, HttpGet 2, Sleep 4, HttpGet 3, Sleep 8,
                       HttpGet 4, Sleep 16, HttpGet 5, Sleep 32])"
proof -
  have "\<forall>a\<in>set [1..<MAX_RETRIES + 1]. \<exists>e. http a = Raises e \<and> is_Timeout e"
    using assms by auto
  then have "fetch_logs response_json http =
      (Inr None, concat (map (\<lambda>a. [HttpGet a, Sleep (2 ^ a)]) [1..<MAX_RETRIES + 1]))"
    unfolding fetch_logs_def by (rule fetch_attempts_all_timeout)
  then show ?thesis unfolding attempts_upto by simp
qed

theorem fetch_logs_all_timeouts_witness:
  "fetch_logs (\<lambda>body. Inr JNull) (\<lambda>attempt. Raises ReadTimeout) =
     (Inr None, [HttpGet 1, Sleep 2, HttpGet 2, Sleep 4, HttpGet 3, Sleep 8,
                 HttpGet 4, Sleep 16, HttpGet 5, Sleep 32])
   \<and> fst (fetch_logs (\<lambda>body. Inr JNull) (\<lambda>attempt. Raises ReadTimeout)) \<noteq> Inr (Some [])"
  using fetch_logs_all_timeouts [of "\<lambda>attempt. Raises ReadTimeout" "\<lambda>body. Inr JNull"]
  by simp

section \<open>Properties of the archive rotator\<close>

lemma names_differ:
  "audit_filename \<noteq> backup_filename" "backup_filename \<noteq> audit_filename"
  by (simp_all add: audit_filename_def backup_filename_def)

text \<open>Whatever fails, the rotator leaves every path but its two alone.\<close>

lemma rotate_other_paths:
  assumes "p \<noteq> audit_filename" and "p \<noteq> backup_filename"
  shows "rotate_audit_file fails t fs p = fs p"
  using assms
  by (simp add: rotate_audit_file_def expire_backup_def rotate_if_full_def rename_audit_def
        split: option.splits sum.splits if_splits)

lemma rotate_audit_absent:
  "fs audit_filename = None \<Longrightarrow> rotate_audit_file fails t fs audit_filename = None"
  using names_differ
  by (simp add: rotate_audit_file_def expire_backup_def rotate_if_full_def
        split: option.splits sum.splits if_splits)

text \<open>An active file below the threshold stays where it is, whatever fails.\<close>

lemma rotate_audit_small:
  assumes "fs audit_filename = Some a" and "length (data a) < MAX_AUDIT_FILESIZE"
  shows "rotate_audit_file fails t fs audit_filename = Some a"
  using assms names_differ
  by (simp add: rotate_audit_file_def expire_backup_def rotate_if_full_def
        split: option.splits sum.splits if_splits)

lemma rotate_empty: "rotate_audit_file fails t Map.empty = Map.empty"
  by (simp add: rotate_audit_file_def expire_backup_def rotate_if_full_def)

text \<open>
  Claim C7: when the active audit file exists with at least 10 MiB and no file
  operation fails, \<^verbatim>\<open>rotate_audit_file\<close> leaves the file system with the former active
  file at the backup path (a backup that was there is gone, expired or not), nothing
  at the active path, and every other path as it was: one backup generation, at
  \<^verbatim>\<open>backup_filename\<close>, and no other.
\<close>

theorem rotate_when_full:
  assumes "\<forall>c. \<not> fails c"
    and "fs audit_filename = Some a"
    and "length (data a) \<ge> MAX_AUDIT_FILESIZE"
  shows "rotate_audit_file fails t fs = fs(backup_filename := Some a, audit_filename := None)"
  using assms names_differ
  by (auto simp add: rotate_audit_file_def expire_backup_def rotate_if_full_def rename_audit_def
        split: option.splits sum.splits if_splits)

theorem rotate_when_full_witness:
  "rotate_audit_file no_faults 5000
     [audit_filename \<mapsto> \<lparr>data = replicate 10485760 CHR ''x'', mtime = 4000\<rparr>,
      backup_filename \<mapsto> \<lparr>data = ''old'', mtime = 3000\<rparr>]
   = [backup_filename \<mapsto> \<lparr>data = replicate 10485760 CHR ''x'', mtime = 4000\<rparr>]"
  using rotate_when_full [of no_faults
      "[audit_filename \<mapsto> \<lparr>data = replicate 10485760 CHR ''x'', mtime = 4000\<rparr>,
        backup_filename \<mapsto> \<lparr>data = ''old'', mtime = 3000\<rparr>]"
      "\<lparr>data = replicate 10485760 CHR ''x'', mtime = 4000\<rparr>" 5000]
    names_differ
  by (simp add: no_faults_def MAX_AUDIT_FILESIZE_def fun_upd_twist)

text \<open>
  Claim C8: when a backup exists that is older than one hour and no file operation
  fails, \<^verbatim>\<open>rotate_audit_file\<close> deletes it. With no rotation due (the active file absent
  or below 10 MiB) that is all it does, and the backup path is empty afterwards;
  with a rotation due the old backup is gone as well, and the active file takes its
  place.
\<close>

theorem expired_backup_deleted:
  assumes "\<forall>c. \<not> fails c"
    and "fs backup_filename = Some b"
    and "t - mtime b > BACKUP_MAX_AGE_SECS"
  shows "rotate_audit_file fails t fs =
           (case fs audit_filename of
              None \<Rightarrow> fs(backup_filename := None)
            | Some a \<Rightarrow>
                if length (data a) \<ge> MAX_AUDIT_FILESIZE
                then fs(backup_filename := Some a, audit_filename := None)
                else fs(backup_filename := None))"
  using assms names_differ
  by (auto simp add: rotate_audit_file_def expire_backup_def rotate_if_full_def rename_audit_def
        split: option.splits sum.splits if_splits)

theorem expired_backup_deleted_witness:
  "rotate_audit_file no_faults 5000
     [audit_filename \<mapsto> \<lparr>data = ''small'', mtime = 4000\<rparr>,
      backup_filename \<mapsto> \<lparr>data = ''old'', mtime = 1399\<rparr>]
   = [audit_filename \<mapsto> \<lparr>data = ''small'', mtime = 4000\<rparr>]"
  using expired_backup_deleted [of no_faults
      "[audit_filename \<mapsto> \<lparr>data = ''small'', mtime = 4000\<rparr>,
        backup_filename \<mapsto> \<lparr>data = ''old'', mtime = 1399\<rparr>]"
      "\<lparr>data = ''old'', mtime = 1399\<rparr>" 5000]
    names_differ
  by (simp add: no_faults_def MAX_AUDIT_FILESIZE_def BACKUP_MAX_AGE_SECS_def)

section \<open>Properties of deduplication, forwarding and persistence\<close>

lemma dumps_id_1: \<open>json_dumps (JDict [(''id'', JInt 1)]) = ''{"id": 1}''\<close>
  by (simp add: encode_basestring_def escape_char_def str_int_def digit_char_def)

lemma dumps_id_2: \<open>json_dumps (JDict [(''id'', JInt 2)]) = ''{"id": 2}''\<close>
  by (simp add: encode_basestring_def escape_char_def str_int_def digit_char_def)

lemma sends_append: "sends (xs @ ys) = sends xs @ sends ys"
  by (induction xs rule: sends.induct) simp_all

lemma sends_TcpSend: "sends (map TcpSend ls) = ls"
  by (induction ls) simp_all

text \<open>
  What the loop does to the state, in terms of the admitted lines: their
  fingerprints join the Seen-Set, each is handed to the sender, and each is put on
  \<^verbatim>\<open>new_events\<close> with its line break.
\<close>

lemma unique_loop_admitted:
  "unique_loop sha256 net logs (st, new_events) =
     (st\<lparr>seen_hashes := seen_hashes st \<union> sha256 ` set (admitted sha256 (seen_hashes st) logs),
         tcp_sender := send_each net (admitted sha256 (seen_hashes st) logs) (tcp_sender st),
         trace := trace st @ map TcpSend (admitted sha256 (seen_hashes st) logs)\<rparr>,
      new_events @ map terminated (admitted sha256 (seen_hashes st) logs))"
proof (induction logs arbitrary: st new_events)
  case Nil
  then show ?case by (simp add: send_each_def)
next
  case (Cons r rs)
  show ?case
    by (simp add: Cons.IH Let_def send_each_def terminated_def)
qed

lemma unique_loop_twice:
  "unique_loop sha256 net [r] (unique_loop sha256 net [r] (st, new_events)) =
     unique_loop sha256 net [r] (st, new_events)"
  by (simp add: Let_def)

lemma write_unique_logs_admitted:
  "write_unique_logs sha256 net fails t logs filename st =
     (let adm = admitted sha256 (seen_hashes st) logs;
          st2 = st\<lparr>files := rotate_audit_file fails t (files st),
                   seen_hashes := seen_hashes st \<union> sha256 ` set adm,
                   tcp_sender := send_each net adm (tcp_sender st),
                   trace := trace st @ Rotation # map TcpSend adm\<rparr>
      in if adm = [] then (None, st2)
         else if fails Open_append then (Some OSError, st2)
         else (None, st2\<lparr>files := append_lines filename (map terminated adm) t
                                     (rotate_audit_file fails t (files st)),
                          trace := trace st @ Rotation # map TcpSend adm
                                     @ [FileAppend filename (map terminated adm)]\<rparr>))"
  by (simp add: write_unique_logs_def unique_loop_admitted Let_def)

lemma write_unique_logs_trace:
  "trace (snd (write_unique_logs sha256 net fails t logs filename st)) =
     trace st @ Rotation # map TcpSend (admitted sha256 (seen_hashes st) logs)
       @ (if admitted sha256 (seen_hashes st) logs = [] \<or> fails Open_append then []
          else [FileAppend filename (map terminated (admitted sha256 (seen_hashes st) logs))])"
  by (simp add: write_unique_logs_admitted Let_def)

text \<open>
  Claim C1, at the record \<^verbatim>\<open>{"id": 1}\<close>, for any fingerprint function. A process that
  starts with no audit file and writes the record keeps the fingerprint of the
  canonical line \<^verbatim>\<open>{"id": 1}\<close> in its Seen-Set. The line in the file ends with a line
  break, and \<^verbatim>\<open>load_existing_event_hashes\<close> hashes each line as the file iterator
  yields it, line break included: the fingerprint replayed at the next start is that
  of \<^verbatim>\<open>{"id": 1}\n\<close>, another byte string.
\<close>

theorem replay_hashes_line_with_line_break:
  \<open>seen_hashes (snd (write_unique_logs sha256 net no_faults t [JDict [(''id'', JInt 1)]]
        audit_filename (start_state net Map.empty))) = {sha256 ''{"id": 1}''}
   \<and> load_existing_event_hashes sha256 no_faults audit_filename
        (files (snd (write_unique_logs sha256 net no_faults t [JDict [(''id'', JInt 1)]]
           audit_filename (start_state net Map.empty))))
       = Inr {sha256 ''{"id": 1}\<newline>''}\<close>
  by (simp add: write_unique_logs_admitted dumps_id_1 start_state_def rotate_empty no_faults_def
        append_lines_def terminated_def load_existing_event_hashes_def
        del: json_dumps.simps)

text \<open>
  So, as soon as the fingerprint function tells the two byte strings apart, the
  record is admitted again by a process that has replayed the file.
\<close>

lemma readmitted_after_replay:
  assumes \<open>sha256 ''{"id": 1}'' \<noteq> sha256 ''{"id": 1}\<newline>''\<close>
  shows \<open>admitted sha256 {sha256 ''{"id": 1}\<newline>''} [JDict [(''id'', JInt 1)]]
           = [''{"id": 1}'']\<close>
  using assms by (simp add: dumps_id_1 del: json_dumps.simps)

text \<open>
  Claim C4. The scenario: with an empty Seen-Set and no audit file, the batch
  \<^verbatim>\<open>[{"id":1},{"id":2},{"id":1}]\<close> is processed without an exception; the audit file
  then holds the two lines \<^verbatim>\<open>{"id": 1}\<close> and \<^verbatim>\<open>{"id": 2}\<close>, the Seen-Set has exactly the
  two fingerprints, and \<^verbatim>\<open>send\<close> has been called twice, once with each line. (The two
  lines have different fingerprints, as they have under SHA-256, and the file can be
  opened.) In general: checking a record a second time against the same Seen-Set
  changes nothing and admits nothing, since the first check has left the
  fingerprint in the Seen-Set.
\<close>

theorem dedup_scenario_and_idempotence:
  assumes \<open>sha256 ''{"id": 1}'' \<noteq> sha256 ''{"id": 2}''\<close>
    and "seen_hashes st = {}" and "files st audit_filename = None"
    and "\<not> fails Open_append"
  shows \<open>(let (raised, st') = write_unique_logs sha256 net fails t
             [JDict [(''id'', JInt 1)], JDict [(''id'', JInt 2)], JDict [(''id'', JInt 1)]]
             audit_filename st
         in raised = None
          \<and> files st' audit_filename
                = Some \<lparr>data = ''{"id": 1}\<newline>{"id": 2}\<newline>'', mtime = t\<rparr>
          \<and> seen_hashes st' = {sha256 ''{"id": 1}'', sha256 ''{"id": 2}''}
          \<and> card (seen_hashes st') = 2
          \<and> sends (trace st') = sends (trace st) @ [''{"id": 1}'', ''{"id": 2}''])
       \<and> unique_loop sha256 net [r] (unique_loop sha256 net [r] (s, new_events))
           = unique_loop sha256 net [r] (s, new_events)
       \<and> sha256 (json_dumps r) \<in> seen_hashes (fst (unique_loop sha256 net [r] (s, new_events)))
       \<and> admitted sha256 (seen_hashes (fst (unique_loop sha256 net [r] (s, new_events)))) [r]
           = []\<close>
proof -
  have adm: \<open>admitted sha256 (seen_hashes st)
      [JDict [(''id'', JInt 1)], JDict [(''id'', JInt 2)], JDict [(''id'', JInt 1)]]
      = [''{"id": 1}'', ''{"id": 2}'']\<close>
    using assms(1,2) by (simp add: dumps_id_1 dumps_id_2 del: json_dumps.simps)
  have rot: "rotate_audit_file fails t (files st) audit_filename = None"
    using assms(3) by (rule rotate_audit_absent)
  have scenario: \<open>(let (raised, st') = write_unique_logs sha256 net fails t
             [JDict [(''id'', JInt 1)], JDict [(''id'', JInt 2)], JDict [(''id'', JInt 1)]]
             audit_filename st
         in raised = None
          \<and> files st' audit_filename
                = Some \<lparr>data = ''{"id": 1}\<newline>{"id": 2}\<newline>'', mtime = t\<rparr>
          \<and> seen_hashes st' = {sha256 ''{"id": 1}'', sha256 ''{"id": 2}''}
          \<and> card (seen_hashes st') = 2
          \<and> sends (trace st') = sends (trace st) @ [''{"id": 1}'', ''{"id": 2}''])\<close>
    unfolding write_unique_logs_admitted adm
    using assms(1,2,4) rot
    by (simp add: append_lines_def terminated_def sends_append sends_TcpSend)
  have again: "sha256 (json_dumps r) \<in> seen_hashes (fst (unique_loop sha256 net [r] (s, new_events)))"
    by (simp add: Let_def)
  then have dup: "admitted sha256 (seen_hashes (fst (unique_loop sha256 net [r] (s, new_events)))) [r]
           = []"
    by (simp del: unique_loop.simps)
  from scenario unique_loop_twice again dup show ?thesis by blast
qed

theorem dedup_scenario_and_idempotence_witness:
  \<open>fst (write_unique_logs id peer_up no_faults 0
        [JDict [(''id'', JInt 1)], JDict [(''id'', JInt 2)], JDict [(''id'', JInt 1)]]
        audit_filename (start_state peer_up Map.empty)) = None
   \<and> files (snd (write_unique_logs id peer_up no_faults 0
        [JDict [(''id'', JInt 1)], JDict [(''id'', JInt 2)], JDict [(''id'', JInt 1)]]
        audit_filename (start_state peer_up Map.empty))) audit_filename
       = Some \<lparr>data = ''{"id": 1}\<newline>{"id": 2}\<newline>'', mtime = 0\<rparr>
   \<and> card (seen_hashes (snd (write_unique_logs id peer_up no_faults 0
        [JDict [(''id'', JInt 1)], JDict [(''id'', JInt 2)], JDict [(''id'', JInt 1)]]
        audit_filename (start_state peer_up Map.empty)))) = 2
   \<and> sends (trace (snd (write_unique_logs id peer_up no_faults 0
        [JDict [(''id'', JInt 1)], JDict [(''id'', JInt 2)], JDict [(''id'', JInt 1)]]
        audit_filename (start_state peer_up Map.empty)))) = [''{"id": 1}'', ''{"id": 2}'']\<close>
  using dedup_scenario_and_idempotence [of id "start_state peer_up Map.empty" no_faults
      peer_up 0 JNull "start_state peer_up Map.empty" "[]"]
  by (simp add: start_state_def no_faults_def case_prod_unfold Let_def
        del: unique_loop.simps json_dumps.simps)

text \<open>
  Claim C5 as the specification states it fails on the code. For the batch
  \<^verbatim>\<open>[{"id": 1}]\<close> on a fresh process the effects are, in this order: the rotation,
  the call \<^verbatim>\<open>tcp_sender.send('{"id": 1}')\<close>, and only then the write of the line to the
  audit file. When the forwarder is asked to transmit the record, the audit file
  does not have it yet.
\<close>

theorem sent_before_persisted:
  "\<not> persisted_before_sent []
       (trace (snd (write_unique_logs id peer_up no_faults 0 [JDict [(''id'', JInt 1)]]
          audit_filename (start_state peer_up Map.empty))))"
  by (simp add: write_unique_logs_trace dumps_id_1 start_state_def no_faults_def terminated_def
        del: json_dumps.simps)

text \<open>
  Claim C5, amended: for every batch, \<^verbatim>\<open>write_unique_logs\<close> first runs the rotation;
  then it goes through the records in order and hands each admitted record to the
  forwarder at once; after the last record it appends the lines of all admitted
  records to the audit file in one write, if there is any admitted record (and the
  file can be opened). Every admitted record is handed to the forwarder before it is
  appended to the audit file.
\<close>

theorem rotate_then_send_each_then_append:
  "trace (snd (write_unique_logs sha256 net fails t logs filename st)) =
     trace st @ [Rotation] @ map TcpSend (admitted sha256 (seen_hashes st) logs)
       @ (if admitted sha256 (seen_hashes st) logs = [] \<or> fails Open_append then []
          else [FileAppend filename (map terminated (admitted sha256 (seen_hashes st) logs))])"
  by (simp add: write_unique_logs_trace)

theorem rotate_then_send_each_then_append_witness:
  \<open>trace (snd (write_unique_logs id peer_up no_faults 0
       [JDict [(''id'', JInt 1)], JDict [(''id'', JInt 2)], JDict [(''id'', JInt 1)]]
       audit_filename (start_state peer_up Map.empty)))
   = [Rotation, TcpSend ''{"id": 1}'', TcpSend ''{"id": 2}'',
      FileAppend audit_filename [''{"id": 1}\<newline>'', ''{"id": 2}\<newline>'']]\<close>
  using rotate_then_send_each_then_append [of id peer_up no_faults 0
      "[JDict [(''id'', JInt 1)], JDict [(''id'', JInt 2)], JDict [(''id'', JInt 1)]]"
      audit_filename "start_state peer_up Map.empty"]
  by (simp add: dumps_id_1 dumps_id_2 start_state_def no_faults_def terminated_def
        del: json_dumps.simps)

text \<open>A sender with no socket and a peer that cannot be reached: each call of
  \<^verbatim>\<open>send\<close> tries to connect, fails, and sends nothing.\<close>

lemma send_unreachable:
  assumes "\<forall>n. \<not> connect_ok net n" and "sock s = None"
  shows "send net l s = s\<lparr>connects := Suc (connects s)\<rparr>"
  using assms by (simp add: send_def connect_def Let_def)

lemma send_each_unreachable:
  assumes "\<forall>n. \<not> connect_ok net n" and "sock s = None"
  shows "send_each net ls s = s\<lparr>connects := connects s + length ls\<rparr>"
  using assms(2)
proof (induction ls arbitrary: s)
  case Nil
  then show ?case by (simp add: send_each_def)
next
  case (Cons l ls)
  have "send_each net (l # ls) s = send_each net ls (send net l s)"
    by (simp add: send_each_def)
  also have "send net l s = s\<lparr>connects := Suc (connects s)\<rparr>"
    using assms(1) Cons.prems by (rule send_unreachable)
  also have "send_each net ls (s\<lparr>connects := Suc (connects s)\<rparr>)
      = s\<lparr>connects := Suc (connects s)\<rparr>
          \<lparr>connects := connects (s\<lparr>connects := Suc (connects s)\<rparr>) + length ls\<rparr>"
    using Cons.prems by (intro Cons.IH) simp
  finally show ?case by simp
qed

text \<open>
  Claim C9. With no connection and a peer that refuses every connect, a batch of
  three records whose fingerprints are new and distinct is processed without an
  exception (the file can be opened). Afterwards the file holds what it held after
  the rotation, followed by the three canonical lines, each with its line break, and
  no other path is touched by the write; in particular, an audit file below the
  rotation threshold keeps its content and has the three lines added at its end. The
  three fingerprints join the Seen-Set; \<^verbatim>\<open>send\<close> is called for each record and
  delivers nothing. And for every batch, what is raised, the files and the Seen-Set
  are the same whatever the network does and whatever state the sender is in.
\<close>

theorem persistence_independent_of_forwarding:
  assumes "\<forall>n. \<not> connect_ok net n" and "sock (tcp_sender st) = None"
    and "distinct [sha256 (json_dumps r1), sha256 (json_dumps r2), sha256 (json_dumps r3)]"
    and "sha256 (json_dumps r1) \<notin> seen_hashes st"
    and "sha256 (json_dumps r2) \<notin> seen_hashes st"
    and "sha256 (json_dumps r3) \<notin> seen_hashes st"
    and "\<not> fails Open_append"
  shows "(let (raised, st') = write_unique_logs sha256 net fails t [r1, r2, r3] filename st;
              rotated = rotate_audit_file fails t (files st)
          in raised = None
           \<and> files st' filename =
                Some \<lparr>data = (case rotated filename of None \<Rightarrow> [] | Some f \<Rightarrow> data f)
                         @ json_dumps r1 @ [CHR 0x0A] @ json_dumps r2 @ [CHR 0x0A]
                         @ json_dumps r3 @ [CHR 0x0A],
                      mtime = t\<rparr>
           \<and> (\<forall>p. p \<noteq> filename \<longrightarrow> files st' p = rotated p)
           \<and> (filename = audit_filename \<and> files st audit_filename = Some a
                \<and> length (data a) < MAX_AUDIT_FILESIZE \<longrightarrow>
                files st' audit_filename =
                  Some \<lparr>data = data a @ json_dumps r1 @ [CHR 0x0A] @ json_dumps r2 @ [CHR 0x0A]
                           @ json_dumps r3 @ [CHR 0x0A],
                        mtime = t\<rparr>)
           \<and> seen_hashes st' = seen_hashes st
                 \<union> {sha256 (json_dumps r1), sha256 (json_dumps r2), sha256 (json_dumps r3)}
           \<and> sends (trace st') = sends (trace st) @ [json_dumps r1, json_dumps r2, json_dumps r3]
           \<and> delivered (tcp_sender st') = delivered (tcp_sender st)
           \<and> sock (tcp_sender st') = None)
         \<and> (let (raised, st') = write_unique_logs sha256 net fails t logs filename st;
                 (raised2, st2') = write_unique_logs sha256 net2 fails t logs filename
                                     (st\<lparr>tcp_sender := sender2\<rparr>)
             in raised = raised2 \<and> files st' = files st2' \<and> seen_hashes st' = seen_hashes st2')"
proof -
  have adm: "admitted sha256 (seen_hashes st) [r1, r2, r3]
      = [json_dumps r1, json_dumps r2, json_dumps r3]"
    using assms(3-6) by auto
  have snd: "send_each net ls (tcp_sender st)
      = (tcp_sender st)\<lparr>connects := connects (tcp_sender st) + length ls\<rparr>" for ls
    using assms(1,2) by (rule send_each_unreachable)
  have small: "files st audit_filename = Some a \<and> length (data a) < MAX_AUDIT_FILESIZE \<longrightarrow>
      rotate_audit_file fails t (files st) audit_filename = Some a"
    using rotate_audit_small by blast
  have first: "(let (raised, st') = write_unique_logs sha256 net fails t [r1, r2, r3] filename st;
              rotated = rotate_audit_file fails t (files st)
          in raised = None
           \<and> files st' filename =
                Some \<lparr>data = (case rotated filename of None \<Rightarrow> [] | Some f \<Rightarrow> data f)
                         @ json_dumps r1 @ [CHR 0x0A] @ json_dumps r2 @ [CHR 0x0A]
                         @ json_dumps r3 @ [CHR 0x0A],
                      mtime = t\<rparr>
           \<and> (\<forall>p. p \<noteq> filename \<longrightarrow> files st' p = rotated p)
           \<and> (filename = audit_filename \<and> files st audit_filename = Some a
                \<and> length (data a) < MAX_AUDIT_FILESIZE \<longrightarrow>
                files st' audit_filename =
                  Some \<lparr>data = data a @ json_dumps r1 @ [CHR 0x0A] @ json_dumps r2 @ [CHR 0x0A]
                           @ json_dumps r3 @ [CHR 0x0A],
                        mtime = t\<rparr>)
           \<and> seen_hashes st' = seen_hashes st
                 \<union> {sha256 (json_dumps r1), sha256 (json_dumps r2), sha256 (json_dumps r3)}
           \<and> sends (trace st') = sends (trace st) @ [json_dumps r1, json_dumps r2, json_dumps r3]
           \<and> delivered (tcp_sender st') = delivered (tcp_sender st)
           \<and> sock (tcp_sender st') = None)"
    unfolding write_unique_logs_admitted adm snd
    using assms(2,7) small
    by (simp add: sends_append sends_TcpSend append_lines_def terminated_def Let_def)
  have second: "(let (raised, st') = write_unique_logs sha256 net fails t logs filename st;
                 (raised2, st2') = write_unique_logs sha256 net2 fails t logs filename
                                     (st\<lparr>tcp_sender := sender2\<rparr>)
             in raised = raised2 \<and> files st' = files st2' \<and> seen_hashes st' = seen_hashes st2')"
    unfolding write_unique_logs_admitted by (simp add: Let_def)
  from first second show ?thesis by (rule conjI)
qed

text \<open>
  The witness: an audit file that already holds the line \<^verbatim>\<open>0\<close>, a peer that cannot be
  reached, and the batch \<^verbatim>\<open>[1, 2, 3]\<close> (the identity stands for the fingerprint
  function). The file ends up with the four lines, the Seen-Set with the four
  fingerprints, and nothing has been delivered.
\<close>

theorem persistence_independent_of_forwarding_witness:
  "fst (write_unique_logs id peer_down no_faults 7 [JInt 1, JInt 2, JInt 3] audit_filename
          ((start_state peer_down [audit_filename \<mapsto> \<lparr>data = ''0\<newline>'', mtime = 3\<rparr>])
             \<lparr>seen_hashes := {''0''}\<rparr>)) = None
   \<and> files (snd (write_unique_logs id peer_down no_faults 7 [JInt 1, JInt 2, JInt 3]
          audit_filename
          ((start_state peer_down [audit_filename \<mapsto> \<lparr>data = ''0\<newline>'', mtime = 3\<rparr>])
             \<lparr>seen_hashes := {''0''}\<rparr>))) audit_filename
       = Some \<lparr>data = ''0\<newline>1\<newline>2\<newline>3\<newline>'', mtime = 7\<rparr>
   \<and> seen_hashes (snd (write_unique_logs id peer_down no_faults 7 [JInt 1, JInt 2, JInt 3]
          audit_filename
          ((start_state peer_down [audit_filename \<mapsto> \<lparr>data = ''0\<newline>'', mtime = 3\<rparr>])
             \<lparr>seen_hashes := {''0''}\<rparr>))) = {''0'', ''1'', ''2'', ''3''}
   \<and> delivered (tcp_sender (snd (write_unique_logs id peer_down no_faults 7
          [JInt 1, JInt 2, JInt 3] audit_filename
          ((start_state peer_down [audit_filename \<mapsto> \<lparr>data = ''0\<newline>'', mtime = 3\<rparr>])
             \<lparr>seen_hashes := {''0''}\<rparr>)))) = []"
proof -
  let ?st = "(start_state peer_down [audit_filename \<mapsto> \<lparr>data = ''0\<newline>'', mtime = 3\<rparr>])
             \<lparr>seen_hashes := {''0''}\<rparr> :: string state"
  have h1: "\<forall>n. \<not> connect_ok peer_down n" by (simp add: peer_down_def)
  have h2: "sock (tcp_sender ?st) = None"
    by (simp add: start_state_def new_tcp_sender_def connect_def peer_down_def)
  have h3: "distinct [id (json_dumps (JInt 1)), id (json_dumps (JInt 2)), id (json_dumps (JInt 3))]"
    by (simp add: str_int_def digit_char_def)
  have h4: "id (json_dumps (JInt 1)) \<notin> seen_hashes ?st"
    "id (json_dumps (JInt 2)) \<notin> seen_hashes ?st"
    "id (json_dumps (JInt 3)) \<notin> seen_hashes ?st"
    by (simp_all add: str_int_def digit_char_def start_state_def)
  have h5: "\<not> no_faults Open_append" by (simp add: no_faults_def)
  have small: "audit_filename = audit_filename
      \<and> files ?st audit_filename = Some \<lparr>data = ''0\<newline>'', mtime = 3\<rparr>
      \<and> length (data \<lparr>data = ''0\<newline>'', mtime = 3\<rparr>) < MAX_AUDIT_FILESIZE"
    by (simp add: start_state_def MAX_AUDIT_FILESIZE_def)
  note inst = persistence_independent_of_forwarding
      [of peer_down ?st id "JInt 1" "JInt 2" "JInt 3" no_faults 7 audit_filename
      "\<lparr>data = ''0\<newline>'', mtime = 3\<rparr>" "[]" peer_up "new_tcp_sender peer_up",
      OF h1 h2 h3 h4 h5]
  have rot: "rotate_audit_file no_faults 7
      [audit_filename \<mapsto> \<lparr>data = ''0\<newline>'', mtime = 3\<rparr>] audit_filename
      = Some \<lparr>data = ''0\<newline>'', mtime = 3\<rparr>"
    by (rule rotate_audit_small) (simp_all add: MAX_AUDIT_FILESIZE_def)
  have sets: "{''1'', ''2'', ''3'', ''0''} = {''0'', ''1'', ''2'', ''3''}"
    by auto
  from inst small show ?thesis
    by (simp add: case_prod_unfold Let_def str_int_def digit_char_def start_state_def
          new_tcp_sender_def connect_def peer_down_def MAX_AUDIT_FILESIZE_def rot sets)
qed

section \<open>Properties of the poll loop\<close>

lemma windows_append: "windows (xs @ ys) = windows xs @ windows ys"
  by (induction xs rule: windows.induct) simp_all

lemma windows_Http: "windows (map Http evs) = []"
  by (induction evs) simp_all

lemma windows_TcpSend: "windows (map TcpSend ls) = []"
  by (induction ls) simp_all


text \<open>Processing a batch queries no window and leaves \<^verbatim>\<open>last_end_dt\<close> alone; a fetch
  queries exactly its window.\<close>

lemma write_unique_logs_windows:
  "windows (trace (snd (write_unique_logs sha256 net fails t logs filename st)))
     = windows (trace st)"
  by (simp add: write_unique_logs_trace windows_append windows_TcpSend)


lemma fetch_window_windows:
  "windows (trace (snd (fetch_window response_json c s e st))) = windows (trace st) @ [(s, e)]"
  by (simp add: fetch_window_def case_prod_unfold Let_def windows_append windows_Http)











lemma load_absent:
  "fs filename = None \<Longrightarrow> load_existing_event_hashes sha256 fails filename fs = Inr {}"
  by (simp add: load_existing_event_hashes_def)

text \<open>
  Claim C10: when the audit file is absent at the start, the replay returns the empty
  Seen-Set instead of raising, whatever else fails, and \<^verbatim>\<open>main\<close> goes on to its
  initial fetch of the last 24 hours.
\<close>

theorem replay_of_absent_audit_file:
  assumes "fs0 audit_filename = None"
  shows "load_existing_event_hashes sha256 fails audit_filename fs0 = Inr {}
       \<and> windows (trace (snd (main_init sha256 response_json net c0 fs0)))
           = [(now_dt c0 - 24 * 3600, now_dt c0)]"
  using assms unfolding main_init_def time_window_def
  by (simp add: load_absent case_prod_unfold Let_def start_state_def fetch_window_windows
        write_unique_logs_windows split: sum.splits option.splits)

theorem replay_of_absent_audit_file_witness:
  "load_existing_event_hashes id no_faults audit_filename Map.empty = Inr {}
   \<and> windows (trace (snd (main_init id (\<lambda>body. Inr (JList [])) peer_up
        \<lparr>now_dt = 100000, server = (\<lambda>attempt. Response ''[]''), fs_fails = no_faults,
         clock = 100000\<rparr> Map.empty)))
       = [(13600, 100000)]"
  using replay_of_absent_audit_file [of Map.empty id no_faults "\<lambda>body. Inr (JList [])" peer_up
      "\<lparr>now_dt = 100000, server = (\<lambda>attempt. Response ''[]''), fs_fails = no_faults,
        clock = 100000\<rparr>"]
  by simp


















end
